theory Spec2Isabelle
  imports Complex_Main
begin

section \<open>The affordability estimation engine\<close>

text \<open>
  The five Streamlit scripts \<^verbatim>\<open>app.py\<close>, \<^verbatim>\<open>app2.py\<close> (regional breakdown) and
  \<^verbatim>\<open>app3.py\<close>, \<^verbatim>\<open>app4.py\<close>, \<^verbatim>\<open>app5.py\<close> (map and radius) share one pipeline: down payment,
  stress-test payment, income distribution, buyer estimate.

  Python's floats are idealised as \<^typ>\<open>real\<close>: rounding, overflow and NaN are outside this
  model. Python's \<^verbatim>\<open>x ** y\<close> on floats with a positive base is \<^term>\<open>x powr y\<close>; a Python
  exception is a value of the type \<open>error\<close>, on the left of a sum.
\<close>

subsection \<open>Exceptions and dictionaries\<close>

datatype error = ZeroDivisionError | KeyError

definition bind_err :: "error + 'a \<Rightarrow> ('a \<Rightarrow> error + 'b) \<Rightarrow> error + 'b" where
  \<comment> \<open>an exception raised by a call leaves the caller too\<close>
  "bind_err m f = (case m of Inl e \<Rightarrow> Inl e | Inr v \<Rightarrow> f v)"

definition getitem :: "(string \<times> 'v) list \<Rightarrow> string \<Rightarrow> error + 'v" where
  \<comment> \<open>\<^verbatim>\<open>d[k]\<close> on a dict literal: KeyError on a missing key\<close>
  "getitem d k = (case map_of d k of None \<Rightarrow> Inl KeyError | Some v \<Rightarrow> Inr v)"

subsection \<open>Configuration tables\<close>

text \<open>
  The tables hold \<^verbatim>\<open>pop\<close> as Python ints and \<^verbatim>\<open>rate\<close> as floats. The \<^verbatim>\<open>lat\<close> and \<^verbatim>\<open>lon\<close>
  entries of the city tables only place map markers and are left out. The keys of
  \<^verbatim>\<open>REGIONS\<close> are written without the flag emoji that starts each of them in the source.
\<close>

record populated =
  pop :: int

record region_data = populated +
  rate :: real

definition REGIONS :: "(string \<times> region_data) list" where
  "REGIONS =
    [(''National'', \<lparr>pop = 20000000, rate = 0.045\<rparr>),
     (''Ontario'', \<lparr>pop = 15000000, rate = 0.047\<rparr>),
     (''BC'', \<lparr>pop = 5300000, rate = 0.049\<rparr>),
     (''Alberta'', \<lparr>pop = 4500000, rate = 0.043\<rparr>),
     (''Quebec'', \<lparr>pop = 9000000, rate = 0.044\<rparr>)]"

definition CANADIAN_CITIES :: "(string \<times> populated) list" where
  \<comment> \<open>\<^verbatim>\<open>app3.py\<close>\<close>
  "CANADIAN_CITIES =
    [(''Toronto'', \<lparr>pop = 6400000\<rparr>),
     (''Vancouver'', \<lparr>pop = 2700000\<rparr>),
     (''Montreal'', \<lparr>pop = 4300000\<rparr>),
     (''Calgary'', \<lparr>pop = 1600000\<rparr>),
     (''Edmonton'', \<lparr>pop = 1500000\<rparr>),
     (''Ottawa'', \<lparr>pop = 1400000\<rparr>),
     (''Winnipeg'', \<lparr>pop = 850000\<rparr>),
     (''Quebec City'', \<lparr>pop = 850000\<rparr>),
     (''Halifax'', \<lparr>pop = 450000\<rparr>)]"

definition CITIES :: "(string \<times> region_data) list" where
  \<comment> \<open>\<^verbatim>\<open>app4.py\<close>, \<^verbatim>\<open>app5.py\<close>\<close>
  "CITIES =
    [(''Toronto'', \<lparr>pop = 6400000, rate = 0.047\<rparr>),
     (''Vancouver'', \<lparr>pop = 2700000, rate = 0.049\<rparr>),
     (''Montreal'', \<lparr>pop = 4300000, rate = 0.044\<rparr>),
     (''Calgary'', \<lparr>pop = 1600000, rate = 0.043\<rparr>),
     (''Edmonton'', \<lparr>pop = 1500000, rate = 0.043\<rparr>)]"

definition BUYER_DEMOS :: "(string \<times> (string \<times> real) list) list" where
  "BUYER_DEMOS =
    [(''Single'', [(''pct'', 0.40), (''income_mult'', 1.0)]),
     (''Couple'', [(''pct'', 0.60), (''income_mult'', 0.75)]),
     (''First-Time'', [(''pct'', 0.45), (''amort_bonus'', 30)]),
     (''Repeat'', [(''pct'', 0.55), (''amort_bonus'', 25)])]"

definition demo :: "string \<Rightarrow> string \<Rightarrow> error + real" where
  \<comment> \<open>\<^verbatim>\<open>BUYER_DEMOS[segment][key]\<close>\<close>
  "demo segment key = bind_err (getitem BUYER_DEMOS segment) (\<lambda>d. getitem d key)"

subsection \<open>Income distribution\<close>

definition lognorm_cdf :: "real \<Rightarrow> real" where
  \<comment> \<open>every call in the five scripts leaves \<^verbatim>\<open>mu=10.45\<close> and \<^verbatim>\<open>sigma=0.95\<close> at their defaults\<close>
  "lognorm_cdf x =
    (let mu = 10.45; sigma = 0.95 in
     if x \<le> 0 then 0.0
     else let z = (ln x - mu) / sigma
          in 0.5 * (1 + tanh (sqrt (2 / 3) * z)))"

subsection \<open>Down payment\<close>

definition calculate_down_payment :: "real \<Rightarrow> real" where
  \<comment> \<open>\<^verbatim>\<open>app.py\<close>, \<^verbatim>\<open>app2.py\<close>, \<^verbatim>\<open>app3.py\<close>\<close>
  "calculate_down_payment price =
    (if price \<le> 500000 then price * 0.05
     else if price \<le> 1500000 then 500000 * 0.05 + (price - 500000) * 0.10
     else price * 0.20)"

definition calculate_down_payment4 :: "real \<Rightarrow> real" where
  \<comment> \<open>\<^verbatim>\<open>app4.py\<close>, \<^verbatim>\<open>app5.py\<close>: the middle tier starts from the literal 25000\<close>
  "calculate_down_payment4 price =
    (if price \<le> 500000 then price * 0.05
     else if price \<le> 1500000 then 25000 + (price - 500000) * 0.10
     else price * 0.20)"

subsection \<open>Stress-test payment\<close>

definition calc_stress_test_payment ::
  "real \<Rightarrow> real \<Rightarrow> real \<Rightarrow> error + (real \<times> real \<times> real \<times> real)" where
  \<comment> \<open>\<^verbatim>\<open>app.py\<close>, \<^verbatim>\<open>app2.py\<close>. The float division raises on a zero divisor. The term
      \<^verbatim>\<open>amort_years\<close> is 25 or 30 at every call; as a \<^typ>\<open>real\<close> it covers any number Python
      accepts there, and the base of the power is always above 1.\<close>
  "calc_stress_test_payment price contract_rate amort_years =
    (let down_payment = calculate_down_payment price;
         loan = price - down_payment;
         stress_rate = max 0.0525 (contract_rate + 0.02);
         n_payments = amort_years * 12;
         monthly_rate = stress_rate / 12
     in if (1 + monthly_rate) powr n_payments - 1 = 0 then Inl ZeroDivisionError
        else
          let monthly_payment =
                loan * (monthly_rate * (1 + monthly_rate) powr n_payments)
                  / ((1 + monthly_rate) powr n_payments - 1)
          in Inr (monthly_payment * 12 / 0.39, down_payment, stress_rate, amort_years))"

definition calc_stress_test_payment3 :: "real \<Rightarrow> real \<Rightarrow> error + (real \<times> real)" where
  \<comment> \<open>\<^verbatim>\<open>app3.py\<close>: the term is fixed at 25 years; the parameter \<^verbatim>\<open>rate\<close> is written \<open>rate'\<close>\<close>
  "calc_stress_test_payment3 price rate' =
    (let down_payment = calculate_down_payment price;
         loan = price - down_payment;
         stress_rate = max 0.0525 (rate' + 0.02);
         n_payments = (25 * 12 :: nat);
         monthly_rate = stress_rate / 12
     in if (1 + monthly_rate) ^ n_payments - 1 = 0 then Inl ZeroDivisionError
        else
          let monthly_payment =
                loan * (monthly_rate * (1 + monthly_rate) ^ n_payments)
                  / ((1 + monthly_rate) ^ n_payments - 1)
          in Inr (monthly_payment * 12 / 0.39, down_payment))"

definition calc_income_needed :: "real \<Rightarrow> real \<Rightarrow> error + (real \<times> real)" where
  \<comment> \<open>\<^verbatim>\<open>app4.py\<close>, \<^verbatim>\<open>app5.py\<close>\<close>
  "calc_income_needed price rate' =
    (let down_payment = calculate_down_payment4 price;
         loan = price - down_payment;
         stress_rate = max 0.0525 (rate' + 0.02);
         n_payments = (25 * 12 :: nat);
         monthly_rate = stress_rate / 12
     in if (1 + monthly_rate) ^ n_payments - 1 = 0 then Inl ZeroDivisionError
        else
          let monthly_payment =
                loan * (monthly_rate * (1 + monthly_rate) ^ n_payments)
                  / ((1 + monthly_rate) ^ n_payments - 1)
          in Inr (monthly_payment * 12 / 0.39, down_payment))"

subsection \<open>Buyer breakdown by segment\<close>

record buyers =
  Single :: real
  Couple :: real
  First_Time :: real
  Repeat :: real
  Total :: real

definition calculate_buyer_breakdown ::
  "real \<Rightarrow> real \<Rightarrow> real \<Rightarrow> error + (buyers \<times> real \<times> real)" where
  \<comment> \<open>\<^verbatim>\<open>app2.py\<close>\<close>
  "calculate_buyer_breakdown price region_pop region_rate =
    (let buyers = \<lparr>Single = 0, Couple = 0, First_Time = 0, Repeat = 0, Total = 0\<rparr> in
     bind_err (calc_stress_test_payment price region_rate 25)
       (\<lambda>(income_single, down, stress, amort).
     let prob_single = max 0 (1 - lognorm_cdf income_single) in
     bind_err (demo ''Single'' ''pct'') (\<lambda>single_pct.
     let buyers = buyers\<lparr>Single := prob_single * region_pop * single_pct\<rparr> in
     bind_err (demo ''Couple'' ''income_mult'') (\<lambda>couple_mult.
     let income_couple = income_single * couple_mult;
         prob_couple = max 0 (1 - lognorm_cdf income_couple) in
     bind_err (demo ''Couple'' ''pct'') (\<lambda>couple_pct.
     let buyers = buyers\<lparr>Couple := prob_couple * region_pop * couple_pct\<rparr> in
     bind_err (demo ''First-Time'' ''amort_bonus'') (\<lambda>ft_amort.
     bind_err (calc_stress_test_payment price region_rate ft_amort)
       (\<lambda>(income_ft, down_ft, stress_ft, amort_ft).
     let prob_ft = max 0 (1 - lognorm_cdf income_ft) in
     bind_err (demo ''First-Time'' ''pct'') (\<lambda>ft_pct.
     let buyers = buyers\<lparr>First_Time := prob_ft * region_pop * ft_pct\<rparr> in
     bind_err (demo ''Repeat'' ''amort_bonus'') (\<lambda>repeat_amort.
     bind_err (calc_stress_test_payment price region_rate repeat_amort)
       (\<lambda>(income_repeat, down_repeat, stress_repeat, amort_repeat).
     let prob_repeat = max 0 (1 - lognorm_cdf income_repeat) in
     bind_err (demo ''Repeat'' ''pct'') (\<lambda>repeat_pct.
     let buyers = buyers\<lparr>Repeat := prob_repeat * region_pop * repeat_pct\<rparr>;
         buyers = buyers\<lparr>Total := Single buyers + Couple buyers\<rparr>
     in Inr (buyers, income_single, down))))))))))))"

definition calculate_buyer_breakdown_app ::
  "region_data \<Rightarrow> real \<Rightarrow> real \<Rightarrow> error + (buyers \<times> real \<times> real)" where
  \<comment> \<open>\<^verbatim>\<open>app.py\<close>: the same body, with the global \<^verbatim>\<open>region_data["rate"]\<close> (here the first
      argument) where \<^verbatim>\<open>app2.py\<close> has its parameter \<^verbatim>\<open>region_rate\<close>\<close>
  "calculate_buyer_breakdown_app region_data price region_pop =
     calculate_buyer_breakdown price region_pop (rate region_data)"

subsection \<open>Comparing two properties\<close>

datatype winner = Property1 | Property2

datatype banner =
    Wins winner real  \<comment> \<open>the trophy line and its "wins by" figure\<close>
  | Equal_pricing     \<comment> \<open>\<^verbatim>\<open>app.py\<close>: "Equal pricing - Similar buyer pools"\<close>
  | No_banner         \<comment> \<open>\<^verbatim>\<open>app2.py\<close>: the \<^verbatim>\<open>if\<close> has no \<^verbatim>\<open>else\<close>\<close>

definition app_winner :: "string \<Rightarrow> int \<Rightarrow> int \<Rightarrow> error + banner" where
  \<comment> \<open>\<^verbatim>\<open>app.py\<close>, from the widgets' values to the winner block; prices are the ints of
      \<^verbatim>\<open>st.number_input\<close>\<close>
  "app_winner region price1 price2 =
    bind_err (getitem REGIONS region) (\<lambda>region_data.
    let region_pop = pop region_data in
    bind_err (calculate_buyer_breakdown_app region_data (of_int price1) (of_int region_pop))
      (\<lambda>(buyers1, income1_single, down1).
    bind_err (calculate_buyer_breakdown_app region_data (of_int price2) (of_int region_pop))
      (\<lambda>(buyers2, income2_single, down2).
    let buyer_difference = Total buyers1 - Total buyers2 in
    Inr (if abs (price1 - price2) > 50000
         then (if buyer_difference > 0 then Wins Property1 buyer_difference
               else Wins Property2 (abs buyer_difference))
         else Equal_pricing))))"

definition app2_winner :: "string \<Rightarrow> int \<Rightarrow> int \<Rightarrow> error + banner" where
  \<comment> \<open>\<^verbatim>\<open>app2.py\<close>\<close>
  "app2_winner region price1 price2 =
    bind_err (getitem REGIONS region) (\<lambda>region_data.
    let region_pop = pop region_data in
    bind_err (calculate_buyer_breakdown (of_int price1) (of_int region_pop) (rate region_data))
      (\<lambda>(buyers1, income1_single, down1).
    bind_err (calculate_buyer_breakdown (of_int price2) (of_int region_pop) (rate region_data))
      (\<lambda>(buyers2, income2_single, down2).
    let buyer_difference = Total buyers1 - Total buyers2 in
    Inr (if abs (price1 - price2) > 50000
         then (if buyer_difference > 0 then Wins Property1 buyer_difference
               else Wins Property2 (abs buyer_difference))
         else No_banner))))"

subsection \<open>Map and radius variant\<close>

datatype buyer_type = Total_Market | Couples | Singles

definition base_pop :: "'a populated_scheme \<Rightarrow> nat \<Rightarrow> real" where
  \<comment> \<open>\<^verbatim>\<open>city["pop"] * (radius_km / 50)**0.7\<close>; the slider yields an integer from 5 to 100,
      never negative, hence \<^typ>\<open>nat\<close>\<close>
  "base_pop city_data radius_km = of_int (pop city_data) * (real radius_km / 50) powr 0.7"

definition app3_potential_buyers ::
  "string \<Rightarrow> nat \<Rightarrow> int \<Rightarrow> buyer_type \<Rightarrow> error + (real \<times> real \<times> real)" where
  \<comment> \<open>\<^verbatim>\<open>app3.py\<close>: the three metrics Potential Buyers, Down Payment, Income Needed\<close>
  "app3_potential_buyers city radius_km price household_type =
    bind_err (calc_stress_test_payment3 (of_int price) 0.045) (\<lambda>(income_needed, down_payment).
    let (income_final, pop_mult) =
          (case household_type of
             Total_Market \<Rightarrow> (income_needed, 1.0)
           | Couples \<Rightarrow> (income_needed * 0.75, 0.60)
           | Singles \<Rightarrow> (income_needed, 0.40));
        prob_affordable = max 0 (1 - lognorm_cdf income_final) in
    bind_err (getitem CANADIAN_CITIES city) (\<lambda>city_data.
    let potential_buyers = prob_affordable * base_pop city_data radius_km * pop_mult
    in Inr (potential_buyers, down_payment, income_final)))"

definition app4_buyers_in_radius ::
  "string \<Rightarrow> nat \<Rightarrow> int \<Rightarrow> buyer_type \<Rightarrow> error + (real \<times> real \<times> real)" where
  \<comment> \<open>\<^verbatim>\<open>app4.py\<close> and, with other labels only, \<^verbatim>\<open>app5.py\<close>: Potential Buyers, Down Payment,
      income needed\<close>
  "app4_buyers_in_radius city radius_km price buyer_type =
    bind_err (getitem CITIES city) (\<lambda>city_data.
    bind_err (calc_income_needed (of_int price) (rate city_data)) (\<lambda>(income_single, down_payment).
    let (income_needed, pop_factor) =
          (case buyer_type of
             Total_Market \<Rightarrow> (income_single, 1.0)
           | Couples \<Rightarrow> (income_single * 0.75, 0.60)
           | Singles \<Rightarrow> (income_single, 0.40));
        prob_affordable = max 0 (1 - lognorm_cdf income_needed);
        buyers_in_radius = prob_affordable * base_pop city_data radius_km * pop_factor
    in Inr (buyers_in_radius, down_payment, income_needed)))"

section \<open>Down-payment rule\<close>

text \<open>
  C1. For every non-negative price the down payment is 5 percent of the price up to 500,000,
  5 percent of 500,000 plus 10 percent of the part above 500,000 up to 1,500,000, and
  20 percent of the price above 1,500,000.
\<close>

theorem calculate_down_payment_tiers:
  assumes "0 \<le> price"
  shows "calculate_down_payment price =
    (if price \<le> 500000 then 0.05 * price
     else if price \<le> 1500000 then 0.05 * 500000 + 0.10 * (price - 500000)
     else 0.20 * price)"
  by (simp add: calculate_down_payment_def)

theorem calculate_down_payment_tiers_witness:
  "(0::real) \<le> 800000 \<and> calculate_down_payment 800000 = 55000"
  using calculate_down_payment_tiers [of 800000] by simp

text \<open>
  C9. The closed-form down payment of \<^verbatim>\<open>app.py\<close> and the variant of \<^verbatim>\<open>app4.py\<close> with the
  literal 25000 return the same amount at every price.
\<close>

theorem calculate_down_payment_variants_agree:
  "calculate_down_payment4 price = calculate_down_payment price"
  by (simp add: calculate_down_payment_def calculate_down_payment4_def)

section \<open>Stress-test payment: rate floor and annuity formula\<close>

lemma stress_rate_floor: "0.0525 \<le> max 0.0525 (r + 0.02 :: real)"
  by simp

lemma monthly_rate_pos: "0 < max 0.0525 (r + 0.02 :: real) / 12"
proof -
  have "(0::real) < 0.0525" by simp
  also have "\<dots> \<le> max 0.0525 (r + 0.02)" by (rule stress_rate_floor)
  finally show ?thesis by simp
qed

lemma growth_gt_one: "1 < 1 + max 0.0525 (r + 0.02 :: real) / 12"
  using monthly_rate_pos [of r] by simp

lemma annuity_denominator_zero_iff:
  "(1 + max 0.0525 (r + 0.02 :: real) / 12) powr (a * 12) - 1 = 0 \<longleftrightarrow> a = 0"
  using growth_gt_one [of r] by simp

lemma annuity_denominator_pos:
  assumes "0 < a"
  shows "0 < (1 + max 0.0525 (r + 0.02 :: real) / 12) powr (a * 12) - 1"
proof -
  have "(1 + max 0.0525 (r + 0.02) / 12) powr 0 < (1 + max 0.0525 (r + 0.02) / 12) powr (a * 12)"
    using assms growth_gt_one [of r] by (intro powr_less_mono) simp_all
  then show ?thesis using growth_gt_one [of r] by simp
qed

lemma calc_stress_test_payment_value:
  assumes "a \<noteq> 0"
  shows "calc_stress_test_payment p r a =
    Inr ((p - calculate_down_payment p)
           * (max 0.0525 (r + 0.02) / 12 * (1 + max 0.0525 (r + 0.02) / 12) powr (a * 12))
           / ((1 + max 0.0525 (r + 0.02) / 12) powr (a * 12) - 1) * 12 / 0.39,
         calculate_down_payment p, max 0.0525 (r + 0.02), a)"
  using assms annuity_denominator_zero_iff [of r a]
  unfolding calc_stress_test_payment_def Let_def by (simp only: if_False)

text \<open>A term of zero years is the one input on which the division raises.\<close>

lemma calc_stress_test_payment_zero_term:
  "calc_stress_test_payment p r 0 = Inl ZeroDivisionError"
  using growth_gt_one [of r] unfolding calc_stress_test_payment_def Let_def by simp


text \<open>
  C3. The stress-test rate that \<^verbatim>\<open>calc_stress_test_payment\<close> uses and returns is the larger
  of 0.0525 and the contract rate plus 0.02: a contract rate of 0.03 gives 0.0525 (the floor),
  a contract rate of 0.06 gives 0.08.
\<close>

theorem stress_rate_rule:
  assumes "amort_years \<noteq> 0"
  shows "(\<exists>income down.
            calc_stress_test_payment price contract_rate amort_years
              = Inr (income, down, max 0.0525 (contract_rate + 0.02), amort_years))
       \<and> (\<exists>income down.
            calc_stress_test_payment price 0.03 amort_years
              = Inr (income, down, 0.0525, amort_years))
       \<and> (\<exists>income down.
            calc_stress_test_payment price 0.06 amort_years
              = Inr (income, down, 0.08, amort_years))"
proof (intro conjI)
  show "\<exists>income down.
          calc_stress_test_payment price contract_rate amort_years
            = Inr (income, down, max 0.0525 (contract_rate + 0.02), amort_years)"
    using calc_stress_test_payment_value [OF assms, of price contract_rate] by blast
  have floor_active: "max 0.0525 (0.03 + 0.02) = (0.0525::real)" by simp
  show "\<exists>income down.
          calc_stress_test_payment price 0.03 amort_years = Inr (income, down, 0.0525, amort_years)"
    using calc_stress_test_payment_value [OF assms, of price "0.03"]
    unfolding floor_active by blast
  have contract_driven: "max 0.0525 (0.06 + 0.02) = (0.08::real)" by simp
  show "\<exists>income down.
          calc_stress_test_payment price 0.06 amort_years = Inr (income, down, 0.08, amort_years)"
    using calc_stress_test_payment_value [OF assms, of price "0.06"]
    unfolding contract_driven by blast
qed

theorem stress_rate_rule_witness:
  "(25::real) \<noteq> 0
   \<and> (\<exists>income down.
        calc_stress_test_payment 800000 0.045 25 = Inr (income, down, 0.065, 25))"
proof -
  have h: "(25::real) \<noteq> 0" by simp
  have "max 0.0525 (0.045 + 0.02) = (0.065::real)" by simp
  with stress_rate_rule [OF h, of 800000 "0.045"] show ?thesis by simp
qed

text \<open>
  C7. For every contract rate and every amortization term of at least one year the stress
  rate is at least 0.0525, the monthly rate is positive and the annuity denominator
  \<open>(1 + monthly_rate) ** n_payments - 1\<close> is not zero, so the division of the payment formula
  never raises and the function returns.
\<close>

theorem annuity_division_well_defined:
  assumes "1 \<le> amort_years"
  shows "0.0525 \<le> max 0.0525 (contract_rate + 0.02)
       \<and> 0 < max 0.0525 (contract_rate + 0.02) / 12
       \<and> (1 + max 0.0525 (contract_rate + 0.02) / 12) powr (amort_years * 12) - 1 \<noteq> 0
       \<and> calc_stress_test_payment price contract_rate amort_years \<noteq> Inl ZeroDivisionError
       \<and> (\<exists>income down.
            calc_stress_test_payment price contract_rate amort_years
              = Inr (income, down, max 0.0525 (contract_rate + 0.02), amort_years))"
proof -
  from assms have pos: "0 < amort_years" and nz: "amort_years \<noteq> 0" by simp_all
  have denominator:
    "(1 + max 0.0525 (contract_rate + 0.02) / 12) powr (amort_years * 12) - 1 \<noteq> 0"
    using annuity_denominator_pos [OF pos, of contract_rate] by linarith
  have returns: "\<exists>income down.
      calc_stress_test_payment price contract_rate amort_years
        = Inr (income, down, max 0.0525 (contract_rate + 0.02), amort_years)"
    using calc_stress_test_payment_value [OF nz, of price contract_rate] by blast
  then have no_raise:
    "calc_stress_test_payment price contract_rate amort_years \<noteq> Inl ZeroDivisionError"
    by auto
  show ?thesis
    using stress_rate_floor [of contract_rate] monthly_rate_pos [of contract_rate]
      denominator no_raise returns
    by (intro conjI)
qed

theorem annuity_division_well_defined_witness:
  "(1::real) \<le> 25
   \<and> calc_stress_test_payment 800000 0.045 25 \<noteq> Inl ZeroDivisionError
   \<and> (1 + max 0.0525 (0.045 + 0.02) / 12) powr (25 * 12) - 1 \<noteq> (0::real)"
proof -
  have h: "(1::real) \<le> 25" by simp
  from annuity_division_well_defined [OF h, of "0.045" 800000] h show ?thesis by blast
qed

section \<open>Required income against price and term\<close>

lemma loan_tiers:
  "p - calculate_down_payment p =
    (if p \<le> 500000 then 0.95 * p else if p \<le> 1500000 then 0.9 * p + 25000 else 0.8 * p)"
  by (simp add: calculate_down_payment_def algebra_simps)

lemma loan_increasing_within_tiers:
  assumes "p < q" and "q \<le> 1500000 \<or> 1500000 < p \<or> 1718750 < q"
  shows "p - calculate_down_payment p < q - calculate_down_payment q"
proof -
  consider "q \<le> 500000" | "p \<le> 500000" "500000 < q" "q \<le> 1500000"
    | "500000 < p" "q \<le> 1500000" | "1500000 < p"
    | "p \<le> 500000" "1718750 < q" | "500000 < p" "p \<le> 1500000" "1718750 < q"
    using assms by linarith
  then show ?thesis
  proof cases
    case 1
    with assms(1) show ?thesis unfolding loan_tiers by simp
  next
    case 2
    with assms(1) show ?thesis unfolding loan_tiers by simp
  next
    case 3
    with assms(1) show ?thesis unfolding loan_tiers by simp
  next
    case 4
    with assms(1) show ?thesis unfolding loan_tiers by simp
  next
    case 5
    with assms(1) show ?thesis unfolding loan_tiers by simp
  next
    case 6
    with assms(1) show ?thesis unfolding loan_tiers by simp
  qed
qed

lemma loan_pos:
  assumes "0 < p"
  shows "0 < p - calculate_down_payment p"
  using assms unfolding loan_tiers by simp

lemma annuity_factor_pos:
  assumes "0 < a"
  shows "0 < max 0.0525 (r + 0.02 :: real) / 12 * (1 + max 0.0525 (r + 0.02) / 12) powr (a * 12)
             / ((1 + max 0.0525 (r + 0.02) / 12) powr (a * 12) - 1)"
proof -
  have "0 < (1 + max 0.0525 (r + 0.02) / 12) powr (a * 12)"
    using growth_gt_one [of r] by simp
  then show ?thesis
    using monthly_rate_pos [of r] annuity_denominator_pos [OF assms, of r] by simp
qed

lemma annuity_factor_decreasing:
  fixes m x y :: real
  assumes "0 < m" and "1 < x" and "x < y"
  shows "m * y / (y - 1) < m * x / (x - 1)"
proof -
  have "y * (x - 1) < x * (y - 1)"
    using assms by (simp add: algebra_simps)
  then have "y / (y - 1) < x / (x - 1)"
    using assms by (simp add: field_simps)
  then show ?thesis
    using assms(1) by (simp add: mult_less_cancel_left_pos flip: times_divide_eq_right)
qed


lemma calc_stress_test_payment_components:
  assumes "a \<noteq> 0" and "calc_stress_test_payment p r a = Inr (i, d, s, a')"
  shows "i = (p - calculate_down_payment p)
             * (max 0.0525 (r + 0.02) / 12 * (1 + max 0.0525 (r + 0.02) / 12) powr (a * 12))
             / ((1 + max 0.0525 (r + 0.02) / 12) powr (a * 12) - 1) * 12 / 0.39"
    and "d = calculate_down_payment p" and "s = max 0.0525 (r + 0.02)" and "a' = a"
  using assms(2) unfolding calc_stress_test_payment_value [OF assms(1)] by blast+

lemma income_scale_iff:
  fixes k x y :: real
  assumes "0 < k"
  shows "x * k * 12 / 0.39 < y * k * 12 / 0.39 \<longleftrightarrow> x < y"
  using assms by simp

lemma income_scale_mono:
  fixes k k' x :: real
  assumes "0 < x" and "k < k'"
  shows "x * k * 12 / 0.39 < x * k' * 12 / 0.39"
  using assms by simp

lemma income_order_is_loan_order:
  assumes "0 < a"
    and "calc_stress_test_payment p r a = Inr (i1, d1, s1, a1)"
    and "calc_stress_test_payment q r a = Inr (i2, d2, s2, a2)"
  shows "i1 < i2 \<longleftrightarrow> p - calculate_down_payment p < q - calculate_down_payment q"
proof -
  define k where "k = max 0.0525 (r + 0.02) / 12 * (1 + max 0.0525 (r + 0.02) / 12) powr (a * 12)
    / ((1 + max 0.0525 (r + 0.02) / 12) powr (a * 12) - 1)"
  from assms(1) have nz: "a \<noteq> 0" by simp
  have k: "0 < k"
    using annuity_factor_pos [OF assms(1), of r] unfolding k_def .
  have i1: "i1 = (p - calculate_down_payment p) * k * 12 / 0.39"
    using calc_stress_test_payment_components(1) [OF nz assms(2)] unfolding k_def by simp
  have i2: "i2 = (q - calculate_down_payment q) * k * 12 / 0.39"
    using calc_stress_test_payment_components(1) [OF nz assms(3)] unfolding k_def by simp
  show ?thesis
    unfolding i1 i2 by (rule income_scale_iff [OF k])
qed

lemma income_decreasing_in_term:
  assumes "0 < a" and "a < b" and "0 < p"
    and "calc_stress_test_payment p r a = Inr (i1, d1, s1, a1)"
    and "calc_stress_test_payment p r b = Inr (i2, d2, s2, a2)"
  shows "i2 < i1"
proof -
  define m where "m = max 0.0525 (r + 0.02) / 12"
  define L where "L = p - calculate_down_payment p"
  from assms have nza: "a \<noteq> 0" and nzb: "b \<noteq> 0" and posb: "0 < b" by simp_all
  have m: "0 < m" using monthly_rate_pos [of r] unfolding m_def .
  have L: "0 < L" using loan_pos [OF assms(3)] unfolding L_def .
  have Xa: "1 < (1 + m) powr (a * 12)"
    using annuity_denominator_pos [OF assms(1), of r] unfolding m_def by simp
  have Xab: "(1 + m) powr (a * 12) < (1 + m) powr (b * 12)"
    using assms(2) m by (intro powr_less_mono) simp_all
  have factor: "m * (1 + m) powr (b * 12) / ((1 + m) powr (b * 12) - 1)
      < m * (1 + m) powr (a * 12) / ((1 + m) powr (a * 12) - 1)"
    using m Xa Xab by (rule annuity_factor_decreasing)
  have i1: "i1 = L * (m * (1 + m) powr (a * 12) / ((1 + m) powr (a * 12) - 1)) * 12 / 0.39"
    using calc_stress_test_payment_components(1) [OF nza assms(4)] unfolding m_def L_def by simp
  have i2: "i2 = L * (m * (1 + m) powr (b * 12) / ((1 + m) powr (b * 12) - 1)) * 12 / 0.39"
    using calc_stress_test_payment_components(1) [OF nzb assms(5)] unfolding m_def L_def by simp
  show ?thesis
    unfolding i1 i2 using L factor by (rule income_scale_mono)
qed

lemma calc_stress_test_payment_returns:
  assumes "a \<noteq> 0"
  shows "\<exists>i d. calc_stress_test_payment p r a = Inr (i, d, max 0.0525 (r + 0.02), a)"
  using calc_stress_test_payment_value [OF assms, of p r] by blast

text \<open>
  C2, as the spec states it, fails: between 1,500,000 and 1,525,000 the down payment jumps
  from 125,000 to 20 percent of the price, the loan falls from 1,375,000 to 1,220,000, and
  the required income falls with it.
\<close>

theorem income_falls_across_top_tier:
  "\<not> isl (calc_stress_test_payment 1500000 0.045 25)
   \<and> \<not> isl (calc_stress_test_payment 1525000 0.045 25)
   \<and> fst (projr (calc_stress_test_payment 1525000 0.045 25))
       < fst (projr (calc_stress_test_payment 1500000 0.045 25))"
proof -
  have nz: "(25::real) \<noteq> 0" and pos: "(0::real) < 25" by simp_all
  obtain i1 d1 where c1:
    "calc_stress_test_payment 1525000 0.045 25 = Inr (i1, d1, max 0.0525 (0.045 + 0.02), 25)"
    using calc_stress_test_payment_returns [OF nz, of 1525000 "0.045"] by blast
  obtain i2 d2 where c2:
    "calc_stress_test_payment 1500000 0.045 25 = Inr (i2, d2, max 0.0525 (0.045 + 0.02), 25)"
    using calc_stress_test_payment_returns [OF nz, of 1500000 "0.045"] by blast
  have "1525000 - calculate_down_payment 1525000 < 1500000 - calculate_down_payment 1500000"
    unfolding loan_tiers by simp
  then have "i1 < i2"
    using income_order_is_loan_order [OF pos c1 c2] by simp
  then show ?thesis
    unfolding c1 c2 by simp
qed

text \<open>
  C2, amended. For a fixed contract rate and a fixed positive term the required income is
  strictly increasing in the price as long as both prices are at most 1,500,000, or both
  are above 1,500,000, or the higher one is above 1,718,750; for a fixed positive price and
  a fixed rate it is strictly decreasing in the amortization term.
\<close>

theorem qualifying_income_monotone_within_tiers:
  assumes "0 < amort_years"
  shows "(0 < p \<and> p < q \<and> (q \<le> 1500000 \<or> 1500000 < p \<or> 1718750 < q) \<longrightarrow>
           (\<exists>income_p down_p income_q down_q stress.
              calc_stress_test_payment p contract_rate amort_years
                = Inr (income_p, down_p, stress, amort_years)
            \<and> calc_stress_test_payment q contract_rate amort_years
                = Inr (income_q, down_q, stress, amort_years)
            \<and> income_p < income_q))
       \<and> (0 < price \<and> amort_years < longer \<longrightarrow>
           (\<exists>income down income_longer stress.
              calc_stress_test_payment price contract_rate amort_years
                = Inr (income, down, stress, amort_years)
            \<and> calc_stress_test_payment price contract_rate longer
                = Inr (income_longer, down, stress, longer)
            \<and> income_longer < income))"
proof (intro conjI impI)
  from assms have nz: "amort_years \<noteq> 0" by simp
  {
    assume h: "0 < p \<and> p < q \<and> (q \<le> 1500000 \<or> 1500000 < p \<or> 1718750 < q)"
    obtain i1 d1 where c1: "calc_stress_test_payment p contract_rate amort_years
        = Inr (i1, d1, max 0.0525 (contract_rate + 0.02), amort_years)"
      using calc_stress_test_payment_returns [OF nz] by blast
    obtain i2 d2 where c2: "calc_stress_test_payment q contract_rate amort_years
        = Inr (i2, d2, max 0.0525 (contract_rate + 0.02), amort_years)"
      using calc_stress_test_payment_returns [OF nz] by blast
    have "p - calculate_down_payment p < q - calculate_down_payment q"
      using h by (intro loan_increasing_within_tiers) simp_all
    then have "i1 < i2"
      using income_order_is_loan_order [OF assms c1 c2] by simp
    with c1 c2 show "\<exists>income_p down_p income_q down_q stress.
              calc_stress_test_payment p contract_rate amort_years
                = Inr (income_p, down_p, stress, amort_years)
            \<and> calc_stress_test_payment q contract_rate amort_years
                = Inr (income_q, down_q, stress, amort_years)
            \<and> income_p < income_q"
      by blast
  }
  {
    assume h: "0 < price \<and> amort_years < longer"
    then have nzl: "longer \<noteq> 0" using assms by simp
    obtain i1 d1 where c1: "calc_stress_test_payment price contract_rate amort_years
        = Inr (i1, d1, max 0.0525 (contract_rate + 0.02), amort_years)"
      using calc_stress_test_payment_returns [OF nz] by blast
    have c2: "calc_stress_test_payment price contract_rate longer
        = Inr (fst (projr (calc_stress_test_payment price contract_rate longer)),
               calculate_down_payment price, max 0.0525 (contract_rate + 0.02), longer)"
      unfolding calc_stress_test_payment_value [OF nzl] by simp
    have d1: "d1 = calculate_down_payment price"
      using calc_stress_test_payment_components(2) [OF nz c1] .
    have "fst (projr (calc_stress_test_payment price contract_rate longer)) < i1"
      using h income_decreasing_in_term [OF assms _ _ c1 c2] by simp
    with c1 c2 d1 show "\<exists>income down income_longer stress.
              calc_stress_test_payment price contract_rate amort_years
                = Inr (income, down, stress, amort_years)
            \<and> calc_stress_test_payment price contract_rate longer
                = Inr (income_longer, down, stress, longer)
            \<and> income_longer < income"
      by blast
  }
qed

theorem qualifying_income_monotone_within_tiers_witness:
  "(0::real) < 25 \<and> (0::real) < 800000 \<and> (800000::real) < 1000000
   \<and> ((1000000::real) \<le> 1500000 \<or> (1500000::real) < 800000 \<or> (1718750::real) < 1000000)
   \<and> (25::real) < 30
   \<and> (\<exists>income_p down_p income_q down_q stress.
        calc_stress_test_payment 800000 0.045 25 = Inr (income_p, down_p, stress, 25)
      \<and> calc_stress_test_payment 1000000 0.045 25 = Inr (income_q, down_q, stress, 25)
      \<and> income_p < income_q)
   \<and> (\<exists>income down income_longer stress.
        calc_stress_test_payment 800000 0.045 25 = Inr (income, down, stress, 25)
      \<and> calc_stress_test_payment 800000 0.045 30 = Inr (income_longer, down, stress, 30)
      \<and> income_longer < income)"
proof -
  have h: "(0::real) < 25" by simp
  show ?thesis
    using qualifying_income_monotone_within_tiers
      [OF h, of 800000 1000000 "0.045" 800000 30]
    by simp
qed

section \<open>Income distribution: support, monotonicity, survival fraction\<close>

lemma lognorm_cdf_nonpos:
  assumes "x \<le> 0"
  shows "lognorm_cdf x = 0"
  using assms by (simp add: lognorm_cdf_def)

lemma lognorm_cdf_pos:
  assumes "0 < x"
  shows "lognorm_cdf x = 0.5 * (1 + tanh (sqrt (2 / 3) * ((ln x - 10.45) / 0.95)))"
  using assms unfolding lognorm_cdf_def Let_def by (simp only: not_le [symmetric] if_False)

lemma lognorm_cdf_ge_0: "0 \<le> lognorm_cdf x"
proof (cases "x \<le> 0")
  case True
  then show ?thesis by (simp add: lognorm_cdf_nonpos)
next
  case False
  then have "0 < x" by simp
  then show ?thesis
    unfolding lognorm_cdf_pos [OF \<open>0 < x\<close>]
    using tanh_real_gt_neg1 [of "sqrt (2 / 3) * ((ln x - 10.45) / 0.95)"] by simp
qed

lemma lognorm_cdf_lt_1: "lognorm_cdf x < 1"
proof (cases "x \<le> 0")
  case True
  then show ?thesis by (simp add: lognorm_cdf_nonpos)
next
  case False
  then have "0 < x" by simp
  then show ?thesis
    unfolding lognorm_cdf_pos [OF \<open>0 < x\<close>]
    using tanh_real_lt_1 [of "sqrt (2 / 3) * ((ln x - 10.45) / 0.95)"] by simp
qed

lemma lognorm_cdf_mono:
  assumes "x \<le> y"
  shows "lognorm_cdf x \<le> lognorm_cdf y"
proof (cases "x \<le> 0")
  case True
  then show ?thesis by (simp add: lognorm_cdf_nonpos lognorm_cdf_ge_0)
next
  case False
  then have x: "0 < x" by simp
  with assms have y: "0 < y" by simp
  have "ln x \<le> ln y" using assms x by (rule ln_mono)
  then have "(ln x - 10.45) / 0.95 \<le> (ln y - 10.45) / 0.95"
    by (simp add: divide_right_mono)
  moreover have "(0::real) \<le> sqrt (2 / 3)" by simp
  ultimately have "sqrt (2 / 3) * ((ln x - 10.45) / 0.95) \<le> sqrt (2 / 3) * ((ln y - 10.45) / 0.95)"
    by (rule mult_left_mono)
  then have "tanh (sqrt (2 / 3) * ((ln x - 10.45) / 0.95))
      \<le> tanh (sqrt (2 / 3) * ((ln y - 10.45) / 0.95))"
    using tanh_real_strict_mono by (simp add: strict_mono_less_eq)
  then show ?thesis
    unfolding lognorm_cdf_pos [OF x] lognorm_cdf_pos [OF y] by simp
qed

lemma survival_antimono:
  assumes "x \<le> y"
  shows "max 0 (1 - lognorm_cdf y) \<le> max 0 (1 - lognorm_cdf x)"
  using lognorm_cdf_mono [OF assms] by simp


lemma survival_pos: "0 < max 0 (1 - lognorm_cdf x)"
  using lognorm_cdf_lt_1 [of x] by simp

text \<open>
  C6. \<^verbatim>\<open>lognorm_cdf\<close> returns exactly 0 at every income that is zero or negative, never
  decreases as the income grows, and the survival fraction \<open>max(0, 1 - lognorm_cdf(income))\<close>
  lies between 0 and 1 at every positive income.
\<close>

theorem lognorm_cdf_support_monotone_bounded:
  "(x \<le> 0 \<longrightarrow> lognorm_cdf x = 0)
   \<and> (y \<le> z \<longrightarrow> lognorm_cdf y \<le> lognorm_cdf z)
   \<and> (0 < income \<longrightarrow>
        0 \<le> max 0 (1 - lognorm_cdf income) \<and> max 0 (1 - lognorm_cdf income) \<le> 1)"
  using lognorm_cdf_nonpos [of x] lognorm_cdf_mono [of y z] lognorm_cdf_ge_0 [of income]
  by simp

theorem lognorm_cdf_support_monotone_bounded_witness:
  "(0::real) \<le> 0 \<and> lognorm_cdf 0 = 0
   \<and> (100000::real) \<le> 200000 \<and> lognorm_cdf 100000 \<le> lognorm_cdf 200000
   \<and> (0::real) < 200000
   \<and> 0 \<le> max 0 (1 - lognorm_cdf 200000) \<and> max 0 (1 - lognorm_cdf 200000) \<le> 1"
  using lognorm_cdf_support_monotone_bounded [of 0 100000 200000 200000] by simp

section \<open>Buyer breakdown\<close>

lemma demo_values:
  "demo ''Single'' ''pct'' = Inr 0.40"
  "demo ''Couple'' ''income_mult'' = Inr 0.75"
  "demo ''Couple'' ''pct'' = Inr 0.60"
  "demo ''First-Time'' ''amort_bonus'' = Inr 30"
  "demo ''First-Time'' ''pct'' = Inr 0.45"
  "demo ''Repeat'' ''amort_bonus'' = Inr 25"
  "demo ''Repeat'' ''pct'' = Inr 0.55"
  by (simp_all add: demo_def getitem_def BUYER_DEMOS_def bind_err_def)

lemma bind_err_Inr: "bind_err (Inr v) f = f v"
  by (simp add: bind_err_def)

lemma calculate_buyer_breakdown_value:
  assumes "calc_stress_test_payment price region_rate 25 = Inr (income, down, stress, amort)"
    and "calc_stress_test_payment price region_rate 30 = Inr (income_ft, down_ft, stress_ft, amort_ft)"
  shows "calculate_buyer_breakdown price region_pop region_rate =
    Inr (\<lparr>Single = max 0 (1 - lognorm_cdf income) * region_pop * 0.40,
          Couple = max 0 (1 - lognorm_cdf (income * 0.75)) * region_pop * 0.60,
          First_Time = max 0 (1 - lognorm_cdf income_ft) * region_pop * 0.45,
          Repeat = max 0 (1 - lognorm_cdf income) * region_pop * 0.55,
          Total = max 0 (1 - lognorm_cdf income) * region_pop * 0.40
                + max 0 (1 - lognorm_cdf (income * 0.75)) * region_pop * 0.60\<rparr>,
         income, down)"
  unfolding calculate_buyer_breakdown_def Let_def demo_values bind_err_Inr assms
  by simp

lemma calculate_buyer_breakdown_returns:
  "\<exists>income down income_ft.
     calc_stress_test_payment price region_rate 25
       = Inr (income, down, max 0.0525 (region_rate + 0.02), 25)
   \<and> calc_stress_test_payment price region_rate 30
       = Inr (income_ft, down, max 0.0525 (region_rate + 0.02), 30)
   \<and> calculate_buyer_breakdown price region_pop region_rate =
       Inr (\<lparr>Single = max 0 (1 - lognorm_cdf income) * region_pop * 0.40,
             Couple = max 0 (1 - lognorm_cdf (income * 0.75)) * region_pop * 0.60,
             First_Time = max 0 (1 - lognorm_cdf income_ft) * region_pop * 0.45,
             Repeat = max 0 (1 - lognorm_cdf income) * region_pop * 0.55,
             Total = max 0 (1 - lognorm_cdf income) * region_pop * 0.40
                   + max 0 (1 - lognorm_cdf (income * 0.75)) * region_pop * 0.60\<rparr>,
            income, down)"
proof -
  have nz25: "(25::real) \<noteq> 0" and nz30: "(30::real) \<noteq> 0" by simp_all
  note c25 = calc_stress_test_payment_value [OF nz25, of price region_rate]
  note c30 = calc_stress_test_payment_value [OF nz30, of price region_rate]
  from calculate_buyer_breakdown_value [OF c25 c30, of region_pop] c25 c30
  show ?thesis by blast
qed


lemma income_scale_nonneg:
  fixes k x :: real
  assumes "0 \<le> x" and "0 < k"
  shows "0 \<le> x * k * 12 / 0.39"
  using assms by simp

lemma segment_count_pos:
  fixes sv region_pop w :: real
  assumes "0 < sv" and "0 < region_pop" and "0 < w"
  shows "0 < sv * region_pop * w"
  using assms by simp

lemma segment_count_nonpos:
  fixes sv region_pop w :: real
  assumes "0 < sv" and "\<not> 0 < region_pop" and "0 < w"
  shows "sv * region_pop * w \<le> 0"
  using assms by (simp add: mult_le_0_iff)

lemma income_nonneg:
  assumes "0 \<le> p" and "0 < a" and "calc_stress_test_payment p r a = Inr (i, d, s, a')"
  shows "0 \<le> i"
proof -
  define k where "k = max 0.0525 (r + 0.02) / 12 * (1 + max 0.0525 (r + 0.02) / 12) powr (a * 12)
    / ((1 + max 0.0525 (r + 0.02) / 12) powr (a * 12) - 1)"
  from assms(2) have nz: "a \<noteq> 0" by simp
  have k: "0 < k"
    using annuity_factor_pos [OF assms(2), of r] unfolding k_def .
  have loan: "0 \<le> p - calculate_down_payment p"
    using assms(1) unfolding loan_tiers by simp
  have "0 \<le> (p - calculate_down_payment p) * k * 12 / 0.39"
    using loan k by (rule income_scale_nonneg)
  moreover have "i = (p - calculate_down_payment p) * k * 12 / 0.39"
    using calc_stress_test_payment_components(1) [OF nz assms(3)] unfolding k_def by simp
  ultimately show ?thesis by (simp only:)
qed

lemma couple_survival_ge_single:
  "max 0 (1 - lognorm_cdf income) \<le> max 0 (1 - lognorm_cdf (income * 0.75))"
proof (cases "0 \<le> income")
  case True
  then have "income * 0.75 \<le> income" by simp
  then show ?thesis by (rule survival_antimono)
next
  case False
  then have "income \<le> 0" and "income * 0.75 \<le> 0" by simp_all
  then show ?thesis by (simp add: lognorm_cdf_nonpos)
qed

text \<open>
  C5. In every buyer breakdown the Total is the Single count plus the Couple count; the
  First-Time and Repeat counts are not part of it, so for a positive population the Total is
  strictly below the sum of the four segments.
\<close>

theorem total_is_single_plus_couple:
  "\<exists>buyers income_single down.
     calculate_buyer_breakdown price region_pop region_rate = Inr (buyers, income_single, down)
   \<and> calculate_buyer_breakdown_app \<lparr>pop = table_pop, rate = region_rate\<rparr> price region_pop
       = Inr (buyers, income_single, down)
   \<and> Total buyers = Single buyers + Couple buyers
   \<and> (if 0 < region_pop
       then Total buyers < Single buyers + Couple buyers + First_Time buyers + Repeat buyers
       else Single buyers + Couple buyers + First_Time buyers + Repeat buyers \<le> Total buyers)"
proof -
  obtain income down income_ft where
    b: "calculate_buyer_breakdown price region_pop region_rate =
       Inr (\<lparr>Single = max 0 (1 - lognorm_cdf income) * region_pop * 0.40,
             Couple = max 0 (1 - lognorm_cdf (income * 0.75)) * region_pop * 0.60,
             First_Time = max 0 (1 - lognorm_cdf income_ft) * region_pop * 0.45,
             Repeat = max 0 (1 - lognorm_cdf income) * region_pop * 0.55,
             Total = max 0 (1 - lognorm_cdf income) * region_pop * 0.40
                   + max 0 (1 - lognorm_cdf (income * 0.75)) * region_pop * 0.60\<rparr>,
            income, down)"
    using calculate_buyer_breakdown_returns [of price region_rate region_pop] by blast
  define S where "S = max 0 (1 - lognorm_cdf income) * region_pop * 0.40"
  define C where "C = max 0 (1 - lognorm_cdf (income * 0.75)) * region_pop * 0.60"
  define F where "F = max 0 (1 - lognorm_cdf income_ft) * region_pop * 0.45"
  define R where "R = max 0 (1 - lognorm_cdf income) * region_pop * 0.55"
  have b': "calculate_buyer_breakdown price region_pop region_rate =
    Inr (\<lparr>Single = S, Couple = C, First_Time = F, Repeat = R, Total = S + C\<rparr>, income, down)"
    unfolding S_def C_def F_def R_def by (rule b)
  have ft: "0 < max 0 (1 - lognorm_cdf income_ft)" and rp: "0 < max 0 (1 - lognorm_cdf income)"
    by (rule survival_pos)+
  have pos: "0 < F" "0 < R" if "0 < region_pop"
    unfolding F_def R_def using ft rp that by (intro segment_count_pos; simp)+
  have nonpos: "F \<le> 0" "R \<le> 0" if "\<not> 0 < region_pop"
    unfolding F_def R_def using ft rp that by (intro segment_count_nonpos; simp)+
  show ?thesis
  proof (cases "0 < region_pop")
    case True
    with pos show ?thesis by (simp add: calculate_buyer_breakdown_app_def b')
  next
    case False
    with nonpos show ?thesis by (simp add: calculate_buyer_breakdown_app_def b')
  qed
qed

theorem total_is_single_plus_couple_witness:
  "\<exists>buyers income_single down.
     calculate_buyer_breakdown 800000 20000000 0.045 = Inr (buyers, income_single, down)
   \<and> Total buyers = Single buyers + Couple buyers
   \<and> Total buyers < Single buyers + Couple buyers + First_Time buyers + Repeat buyers"
  using total_is_single_plus_couple [of 800000 20000000 "0.045" 20000000] by auto

text \<open>
  C10. In every buyer breakdown the Couple segment is measured against 0.75 times the Single
  qualifying income, which for a price that is not negative is at most the Single
  threshold, and the Couple survival fraction is at least the Single survival fraction.
\<close>

theorem couple_threshold_and_survival:
  assumes "0 \<le> price"
  shows "\<exists>buyers income_single down.
     calculate_buyer_breakdown price region_pop region_rate = Inr (buyers, income_single, down)
   \<and> calculate_buyer_breakdown_app \<lparr>pop = table_pop, rate = region_rate\<rparr> price region_pop
       = Inr (buyers, income_single, down)
   \<and> Single buyers = max 0 (1 - lognorm_cdf income_single) * region_pop * 0.40
   \<and> Couple buyers = max 0 (1 - lognorm_cdf (income_single * 0.75)) * region_pop * 0.60
   \<and> income_single * 0.75 \<le> income_single
   \<and> max 0 (1 - lognorm_cdf income_single) \<le> max 0 (1 - lognorm_cdf (income_single * 0.75))"
proof -
  obtain income down income_ft where
    c: "calc_stress_test_payment price region_rate 25
       = Inr (income, down, max 0.0525 (region_rate + 0.02), 25)" and
    b: "calculate_buyer_breakdown price region_pop region_rate =
       Inr (\<lparr>Single = max 0 (1 - lognorm_cdf income) * region_pop * 0.40,
             Couple = max 0 (1 - lognorm_cdf (income * 0.75)) * region_pop * 0.60,
             First_Time = max 0 (1 - lognorm_cdf income_ft) * region_pop * 0.45,
             Repeat = max 0 (1 - lognorm_cdf income) * region_pop * 0.55,
             Total = max 0 (1 - lognorm_cdf income) * region_pop * 0.40
                   + max 0 (1 - lognorm_cdf (income * 0.75)) * region_pop * 0.60\<rparr>,
            income, down)"
    using calculate_buyer_breakdown_returns [of price region_rate region_pop] by blast
  have "0 \<le> income"
    using income_nonneg [OF assms _ c] by simp
  then have "income * 0.75 \<le> income" by simp
  then show ?thesis
    using couple_survival_ge_single [of income]
    by (simp add: calculate_buyer_breakdown_app_def b)
qed

theorem couple_threshold_and_survival_witness:
  "(0::real) \<le> 800000
   \<and> (\<exists>buyers income_single down.
        calculate_buyer_breakdown 800000 20000000 0.045 = Inr (buyers, income_single, down)
      \<and> Single buyers = max 0 (1 - lognorm_cdf income_single) * 20000000 * 0.40
      \<and> Couple buyers = max 0 (1 - lognorm_cdf (income_single * 0.75)) * 20000000 * 0.60
      \<and> income_single * 0.75 \<le> income_single
      \<and> max 0 (1 - lognorm_cdf income_single) \<le> max 0 (1 - lognorm_cdf (income_single * 0.75)))"
proof -
  have h: "(0::real) \<le> 800000" by simp
  from couple_threshold_and_survival [OF h, of 20000000 "0.045" 20000000] h
  show ?thesis by blast
qed

section \<open>Comparing two properties\<close>

lemma getitem_Some:
  assumes "map_of d k = Some v"
  shows "getitem d k = Inr v"
  using assms by (simp add: getitem_def)

lemma calculate_buyer_breakdown_total:
  "\<exists>buyers income down. calculate_buyer_breakdown price region_pop region_rate
      = Inr (buyers, income, down)"
  using calculate_buyer_breakdown_returns [of price region_rate region_pop] by blast

lemma app_winner_value:
  assumes "map_of REGIONS region = Some region_data"
    and "calculate_buyer_breakdown (of_int price1) (of_int (pop region_data)) (rate region_data)
           = Inr (buyers1, income1, down1)"
    and "calculate_buyer_breakdown (of_int price2) (of_int (pop region_data)) (rate region_data)
           = Inr (buyers2, income2, down2)"
  shows "app_winner region price1 price2 =
           Inr (if \<bar>price1 - price2\<bar> > 50000
                then (if Total buyers1 - Total buyers2 > 0
                      then Wins Property1 (Total buyers1 - Total buyers2)
                      else Wins Property2 \<bar>Total buyers1 - Total buyers2\<bar>)
                else Equal_pricing)"
    and "app2_winner region price1 price2 =
           Inr (if \<bar>price1 - price2\<bar> > 50000
                then (if Total buyers1 - Total buyers2 > 0
                      then Wins Property1 (Total buyers1 - Total buyers2)
                      else Wins Property2 \<bar>Total buyers1 - Total buyers2\<bar>)
                else No_banner)"
  unfolding app_winner_def app2_winner_def calculate_buyer_breakdown_app_def Let_def
    getitem_Some [OF assms(1)] bind_err_Inr assms(2,3)
  by simp_all

text \<open>
  What both winner blocks do at every pair of prices: beyond a gap of 50,000 they name
  Property 1 when its Total is strictly larger and Property 2 otherwise, with the absolute
  difference of the Totals as the figure; up to a gap of 50,000 \<^verbatim>\<open>app.py\<close> shows
  "Equal pricing" and \<^verbatim>\<open>app2.py\<close> shows nothing.
\<close>

lemma winner_block_outcome:
  assumes "map_of REGIONS region = Some region_data"
  shows "\<exists>buyers1 income1 down1 buyers2 income2 down2.
      calculate_buyer_breakdown (of_int price1) (of_int (pop region_data)) (rate region_data)
        = Inr (buyers1, income1, down1)
    \<and> calculate_buyer_breakdown (of_int price2) (of_int (pop region_data)) (rate region_data)
        = Inr (buyers2, income2, down2)
    \<and> (if 50000 < \<bar>price1 - price2\<bar>
        then \<exists>w margin.
               app_winner region price1 price2 = Inr (Wins w margin)
             \<and> app2_winner region price1 price2 = Inr (Wins w margin)
             \<and> margin = \<bar>Total buyers1 - Total buyers2\<bar>
             \<and> (w = Property1 \<and> Total buyers2 < Total buyers1
                \<or> w = Property2 \<and> Total buyers1 \<le> Total buyers2)
        else app_winner region price1 price2 = Inr Equal_pricing
           \<and> app2_winner region price1 price2 = Inr No_banner)"
proof -
  obtain buyers1 income1 down1 where c1:
    "calculate_buyer_breakdown (of_int price1) (of_int (pop region_data)) (rate region_data)
      = Inr (buyers1, income1, down1)"
    using calculate_buyer_breakdown_total by blast
  obtain buyers2 income2 down2 where c2:
    "calculate_buyer_breakdown (of_int price2) (of_int (pop region_data)) (rate region_data)
      = Inr (buyers2, income2, down2)"
    using calculate_buyer_breakdown_total by blast
  note v = app_winner_value [OF assms c1 c2]
  have "if 50000 < \<bar>price1 - price2\<bar>
        then \<exists>w margin.
               app_winner region price1 price2 = Inr (Wins w margin)
             \<and> app2_winner region price1 price2 = Inr (Wins w margin)
             \<and> margin = \<bar>Total buyers1 - Total buyers2\<bar>
             \<and> (w = Property1 \<and> Total buyers2 < Total buyers1
                \<or> w = Property2 \<and> Total buyers1 \<le> Total buyers2)
        else app_winner region price1 price2 = Inr Equal_pricing
           \<and> app2_winner region price1 price2 = Inr No_banner"
    unfolding v by auto
  with c1 c2 show ?thesis by blast
qed











section \<open>Map and radius variant: population within the radius\<close>

lemma fixed_term_denominator_pos:
  "0 < (1 + max 0.0525 (r + 0.02 :: real) / 12) ^ (25 * 12 :: nat) - 1"
proof -
  have "1 < (1 + max 0.0525 (r + 0.02) / 12) ^ (25 * 12 :: nat)"
    using growth_gt_one [of r] by (intro one_less_power) simp_all
  then show ?thesis by simp
qed

lemma fixed_term_denominator_nonzero:
  "(1 + max 0.0525 (r + 0.02 :: real) / 12) ^ (25 * 12 :: nat) - 1 \<noteq> 0"
  using fixed_term_denominator_pos [of r] by linarith

lemma calc_stress_test_payment3_returns:
  "\<exists>income_needed. calc_stress_test_payment3 price r
      = Inr (income_needed, calculate_down_payment price)"
  unfolding calc_stress_test_payment3_def Let_def if_not_P [OF fixed_term_denominator_nonzero]
  by blast

lemma calc_income_needed_returns:
  "\<exists>income_single. calc_income_needed price r
      = Inr (income_single, calculate_down_payment4 price)"
  unfolding calc_income_needed_def Let_def if_not_P [OF fixed_term_denominator_nonzero]
  by blast

lemma radius_factor_gt_one:
  assumes "50 < radius_km"
  shows "1 < (real radius_km / 50) powr 0.7"
proof -
  have "1 < real radius_km / 50" using assms by simp
  then show ?thesis by (intro gr_one_powr) simp_all
qed

lemma base_pop_exceeds_city:
  assumes "50 < radius_km" and "0 < pop city_data"
  shows "of_int (pop city_data) < base_pop city_data radius_km"
proof -
  have "of_int (pop city_data) * 1 < of_int (pop city_data) * (real radius_km / 50) powr 0.7"
    using assms(2) radius_factor_gt_one [OF assms(1)]
    by (intro mult_strict_left_mono) simp_all
  then show ?thesis by (simp add: base_pop_def)
qed

lemma CANADIAN_CITIES_pop_pos:
  assumes "map_of CANADIAN_CITIES city = Some city_data"
  shows "0 < pop city_data"
  using assms by (auto simp: CANADIAN_CITIES_def split: if_splits)

lemma CITIES_pop_pos:
  assumes "map_of CITIES city = Some city_data"
  shows "0 < pop city_data"
  using assms by (auto simp: CITIES_def split: if_splits)


lemma base_pop_within_city:
  assumes "\<not> 50 < radius_km" and "0 < pop city_data"
  shows "base_pop city_data radius_km \<le> of_int (pop city_data)"
proof -
  have "real radius_km / 50 \<le> 1" and "0 \<le> real radius_km / 50" using assms(1) by simp_all
  then have "(real radius_km / 50) powr 0.7 \<le> 1"
    by (intro powr_le1) simp_all
  then have "of_int (pop city_data) * (real radius_km / 50) powr 0.7 \<le> of_int (pop city_data) * 1"
    using assms(2) by (intro mult_left_mono) simp_all
  then show ?thesis by (simp add: base_pop_def)
qed

text \<open>
  C8. In the map variants the population that enters the buyer count is the city's
  population times \<open>(radius_km / 50) ** 0.7\<close>, for every city of the table and every radius;
  nothing clamps it, so beyond 50 km it exceeds the city's population.
\<close>

theorem radius_population_unclamped:
  assumes "map_of CANADIAN_CITIES city = Some city_data"
    and "map_of CITIES city' = Some city_data'"
  shows "(\<exists>income_needed down_payment income_final pop_mult.
            calc_stress_test_payment3 (of_int price) 0.045 = Inr (income_needed, down_payment)
          \<and> income_final = (case household_type of Couples \<Rightarrow> income_needed * 0.75
                              | Total_Market \<Rightarrow> income_needed | Singles \<Rightarrow> income_needed)
          \<and> pop_mult = (case household_type of Total_Market \<Rightarrow> 1.0 | Couples \<Rightarrow> 0.60
                          | Singles \<Rightarrow> 0.40)
          \<and> app3_potential_buyers city radius_km price household_type
              = Inr (max 0 (1 - lognorm_cdf income_final)
                       * (of_int (pop city_data) * (real radius_km / 50) powr 0.7) * pop_mult,
                     down_payment, income_final))
       \<and> (\<exists>income_single down_payment income_needed pop_factor.
            calc_income_needed (of_int price) (rate city_data') = Inr (income_single, down_payment)
          \<and> income_needed = (case household_type of Couples \<Rightarrow> income_single * 0.75
                               | Total_Market \<Rightarrow> income_single | Singles \<Rightarrow> income_single)
          \<and> pop_factor = (case household_type of Total_Market \<Rightarrow> 1.0 | Couples \<Rightarrow> 0.60
                            | Singles \<Rightarrow> 0.40)
          \<and> app4_buyers_in_radius city' radius_km price household_type
              = Inr (max 0 (1 - lognorm_cdf income_needed)
                       * (of_int (pop city_data') * (real radius_km / 50) powr 0.7) * pop_factor,
                     down_payment, income_needed))
       \<and> (if 50 < radius_km
           then of_int (pop city_data) < base_pop city_data radius_km
              \<and> of_int (pop city_data') < base_pop city_data' radius_km
           else base_pop city_data radius_km \<le> of_int (pop city_data)
              \<and> base_pop city_data' radius_km \<le> of_int (pop city_data'))"
proof (intro conjI)
  obtain income_needed where c3: "calc_stress_test_payment3 (of_int price) 0.045
      = Inr (income_needed, calculate_down_payment (of_int price))"
    using calc_stress_test_payment3_returns by blast
  show "\<exists>income_needed down_payment income_final pop_mult.
            calc_stress_test_payment3 (of_int price) 0.045 = Inr (income_needed, down_payment)
          \<and> income_final = (case household_type of Couples \<Rightarrow> income_needed * 0.75
                              | Total_Market \<Rightarrow> income_needed | Singles \<Rightarrow> income_needed)
          \<and> pop_mult = (case household_type of Total_Market \<Rightarrow> 1.0 | Couples \<Rightarrow> 0.60
                          | Singles \<Rightarrow> 0.40)
          \<and> app3_potential_buyers city radius_km price household_type
              = Inr (max 0 (1 - lognorm_cdf income_final)
                       * (of_int (pop city_data) * (real radius_km / 50) powr 0.7) * pop_mult,
                     down_payment, income_final)"
  proof (intro exI conjI)
    show "calc_stress_test_payment3 (of_int price) 0.045
        = Inr (income_needed, calculate_down_payment (of_int price))"
      by (rule c3)
  next
    show "app3_potential_buyers city radius_km price household_type
        = Inr (max 0 (1 - lognorm_cdf (case household_type of Couples \<Rightarrow> income_needed * 0.75
                                        | Total_Market \<Rightarrow> income_needed | Singles \<Rightarrow> income_needed))
                 * (of_int (pop city_data) * (real radius_km / 50) powr 0.7)
                 * (case household_type of Total_Market \<Rightarrow> 1.0 | Couples \<Rightarrow> 0.60 | Singles \<Rightarrow> 0.40),
               calculate_down_payment (of_int price),
               case household_type of Couples \<Rightarrow> income_needed * 0.75
               | Total_Market \<Rightarrow> income_needed | Singles \<Rightarrow> income_needed)"
      unfolding app3_potential_buyers_def c3 bind_err_Inr getitem_Some [OF assms(1)] base_pop_def
      by (cases household_type) simp_all
  qed (rule refl)+
  obtain income_single where c4: "calc_income_needed (of_int price) (rate city_data')
      = Inr (income_single, calculate_down_payment4 (of_int price))"
    using calc_income_needed_returns by blast
  show "\<exists>income_single down_payment income_needed pop_factor.
            calc_income_needed (of_int price) (rate city_data') = Inr (income_single, down_payment)
          \<and> income_needed = (case household_type of Couples \<Rightarrow> income_single * 0.75
                               | Total_Market \<Rightarrow> income_single | Singles \<Rightarrow> income_single)
          \<and> pop_factor = (case household_type of Total_Market \<Rightarrow> 1.0 | Couples \<Rightarrow> 0.60
                            | Singles \<Rightarrow> 0.40)
          \<and> app4_buyers_in_radius city' radius_km price household_type
              = Inr (max 0 (1 - lognorm_cdf income_needed)
                       * (of_int (pop city_data') * (real radius_km / 50) powr 0.7) * pop_factor,
                     down_payment, income_needed)"
  proof (intro exI conjI)
    show "calc_income_needed (of_int price) (rate city_data')
        = Inr (income_single, calculate_down_payment4 (of_int price))"
      by (rule c4)
  next
    show "app4_buyers_in_radius city' radius_km price household_type
        = Inr (max 0 (1 - lognorm_cdf (case household_type of Couples \<Rightarrow> income_single * 0.75
                                        | Total_Market \<Rightarrow> income_single | Singles \<Rightarrow> income_single))
                 * (of_int (pop city_data') * (real radius_km / 50) powr 0.7)
                 * (case household_type of Total_Market \<Rightarrow> 1.0 | Couples \<Rightarrow> 0.60 | Singles \<Rightarrow> 0.40),
               calculate_down_payment4 (of_int price),
               case household_type of Couples \<Rightarrow> income_single * 0.75
               | Total_Market \<Rightarrow> income_single | Singles \<Rightarrow> income_single)"
      unfolding app4_buyers_in_radius_def getitem_Some [OF assms(2)] bind_err_Inr c4 base_pop_def
      by (cases household_type) simp_all
  qed (rule refl)+
  show "if 50 < radius_km
           then of_int (pop city_data) < base_pop city_data radius_km
              \<and> of_int (pop city_data') < base_pop city_data' radius_km
           else base_pop city_data radius_km \<le> of_int (pop city_data)
              \<and> base_pop city_data' radius_km \<le> of_int (pop city_data')"
    using base_pop_exceeds_city [of radius_km city_data] base_pop_exceeds_city [of radius_km city_data']
      base_pop_within_city [of radius_km city_data] base_pop_within_city [of radius_km city_data']
      CANADIAN_CITIES_pop_pos [OF assms(1)] CITIES_pop_pos [OF assms(2)]
    by simp
qed

theorem radius_population_unclamped_witness:
  "map_of CANADIAN_CITIES ''Toronto'' = Some \<lparr>pop = 6400000\<rparr>
   \<and> map_of CITIES ''Toronto'' = Some \<lparr>pop = 6400000, rate = 0.047\<rparr>
   \<and> (\<exists>income down.
        app3_potential_buyers ''Toronto'' 100 800000 Total_Market
          = Inr (max 0 (1 - lognorm_cdf income) * (6400000 * (100 / 50) powr 0.7) * 1,
                 down, income))
   \<and> (\<exists>income down.
        app4_buyers_in_radius ''Toronto'' 100 800000 Total_Market
          = Inr (max 0 (1 - lognorm_cdf income) * (6400000 * (100 / 50) powr 0.7) * 1,
                 down, income))
   \<and> 6400000 < base_pop \<lparr>pop = 6400000\<rparr> 100
   \<and> 6400000 < base_pop \<lparr>pop = 6400000, rate = 0.047\<rparr> 100"
proof -
  have h3: "map_of CANADIAN_CITIES ''Toronto'' = Some \<lparr>pop = 6400000\<rparr>"
    by (simp add: CANADIAN_CITIES_def)
  have h4: "map_of CITIES ''Toronto'' = Some \<lparr>pop = 6400000, rate = 0.047\<rparr>"
    by (simp add: CITIES_def)
  from radius_population_unclamped [OF h3 h4, of 800000 Total_Market 100] h3 h4
  show ?thesis by auto
qed

end
